theory Spec2Isabelle
  imports Complex_Main "HOL-Library.AList" "HOL-Library.Log_Nat"
begin

section \<open>Python values used by the drift engine\<close>

text \<open>
  A Python \<open>float\<close> (and a NumPy \<open>float64\<close>) is an IEEE double: a finite value, an
  infinity or NaN.  Only comparisons are made on p-values and thresholds, and a
  comparison of doubles is the comparison of their exact values, with every comparison
  against NaN false.
\<close>

datatype pyfloat = Finite real | PosInf | NegInf | NaN

fun float_lt :: "pyfloat \<Rightarrow> pyfloat \<Rightarrow> bool" where
  "float_lt (Finite x) (Finite y) = (x < y)"
| "float_lt (Finite x) PosInf = True"
| "float_lt NegInf (Finite y) = True"
| "float_lt NegInf PosInf = True"
| "float_lt _ _ = False"

text \<open>
  Exceptions are values.  \<open>check_drift\<close> distinguishes \<open>FileNotFoundError\<close> from every
  other exception class; the argument is \<open>str(e)\<close>.
\<close>

datatype exn =
    FileNotFoundError string
  | PermissionError string
  | ValueError string
  | KeyError string
  | ZeroDivisionError string
  | OtherException string

section \<open>Data frames\<close>

text \<open>
  A \<open>pandas.DataFrame\<close> as read from a CSV file: the columns in file order, each a
  name and its cells; a missing cell (NaN) is \<open>None\<close>.  The cell type is left open:
  the engine never inspects a cell.
\<close>

type_synonym 'a dataframe = "(string \<times> 'a option list) list"

definition columns :: "'a dataframe \<Rightarrow> string list" where
  "columns df = map fst df"

text \<open>\<open>df[col]\<close>: the column of that name, \<open>KeyError\<close> when there is none.\<close>

definition getitem :: "'a dataframe \<Rightarrow> string \<Rightarrow> exn + 'a option list" where
  "getitem df col = (case map_of df col of None \<Rightarrow> Inl (KeyError col) | Some cells \<Rightarrow> Inr cells)"

text \<open>\<open>Series.dropna()\<close>: the present cells, in order.\<close>

fun dropna :: "'a option list \<Rightarrow> 'a list" where
  "dropna [] = []"
| "dropna (None # cells) = dropna cells"
| "dropna (Some v # cells) = v # dropna cells"

section \<open>The environment of one check\<close>

text \<open>
  Everything \<open>detect_drift\<close> calls outside the repository: the file system
  (\<open>os.makedirs\<close>, \<open>pandas.read_csv\<close>, writing the JSON artifact), the clock and
  \<open>scipy.stats.ks_2samp\<close>.  Each call either returns or raises.
\<close>

record 'a world =
  makedirs :: "string \<Rightarrow> exn option"
  read_csv :: "string \<Rightarrow> exn + 'a dataframe"
  ks_2samp :: "'a list \<Rightarrow> 'a list \<Rightarrow> exn + (pyfloat \<times> pyfloat)"
  strftime_now :: string
  json_dump_to :: "string \<Rightarrow> exn option"

section \<open>drift_detect.py\<close>

record feature_result =
  p_value :: pyfloat
  statistic :: pyfloat
  drift_detected :: bool
  type' :: string

text \<open>
  The \<open>results\<close> dict: insertion-ordered, \<open>results[col] = v\<close> overwrites in place or
  appends.
\<close>

type_synonym results = "(string \<times> feature_result) list"

datatype effect = MkDir string | WriteJson string results

text \<open>The body of the \<open>for col in ref.columns\<close> loop, lines 35 to 43.\<close>

fun drift_loop ::
  "('a list \<Rightarrow> 'a list \<Rightarrow> exn + (pyfloat \<times> pyfloat)) \<Rightarrow> 'a dataframe \<Rightarrow> 'a dataframe \<Rightarrow>
   pyfloat \<Rightarrow> string list \<Rightarrow> results \<Rightarrow> exn + results" where
  "drift_loop ks ref prd threshold [] results = Inr results"
| "drift_loop ks ref prd threshold (col # cols) results =
     (if col \<noteq> ''Exited'' \<and> col \<in> set (columns prd) then
        (case getitem ref col of
           Inl e \<Rightarrow> Inl e
         | Inr rc \<Rightarrow>
           (case getitem prd col of
              Inl e \<Rightarrow> Inl e
            | Inr pc \<Rightarrow>
              (case ks (dropna rc) (dropna pc) of
                 Inl e \<Rightarrow> Inl e
               | Inr (stat, p) \<Rightarrow>
                   drift_loop ks ref prd threshold cols
                     (AList.update col
                        \<lparr>p_value = p, statistic = stat,
                         drift_detected = float_lt p threshold,
                         type' = ''numerical''\<rparr> results))))
      else drift_loop ks ref prd threshold cols results)"

definition report_path :: "string \<Rightarrow> string \<Rightarrow> string" where
  "report_path output_dir stamp = output_dir @ ''/drift_'' @ stamp @ ''.json''"

text \<open>
  \<open>detect_drift\<close>: the value returned or the exception raised, and what was done to
  the file system on the way.  Only a complete artifact counts as written; the file that
  a failed write may leave behind is not tracked.
\<close>

definition detect_drift ::
  "'a world \<Rightarrow> string \<Rightarrow> string \<Rightarrow> pyfloat \<Rightarrow> string \<Rightarrow> (exn + results) \<times> effect list" where
  "detect_drift w reference_file production_file threshold output_dir =
     (case makedirs w output_dir of
        Some e \<Rightarrow> (Inl e, [])
      | None \<Rightarrow>
        (case read_csv w reference_file of
           Inl e \<Rightarrow> (Inl e, [MkDir output_dir])
         | Inr ref \<Rightarrow>
           (case read_csv w production_file of
              Inl e \<Rightarrow> (Inl e, [MkDir output_dir])
            | Inr prd \<Rightarrow>
              (case drift_loop (ks_2samp w) ref prd threshold (columns ref) [] of
                 Inl e \<Rightarrow> (Inl e, [MkDir output_dir])
               | Inr results \<Rightarrow>
                 (case json_dump_to w (report_path output_dir (strftime_now w)) of
                    Some e \<Rightarrow> (Inl e, [MkDir output_dir])
                  | None \<Rightarrow>
                      (Inr results,
                       [MkDir output_dir,
                        WriteJson (report_path output_dir (strftime_now w)) results]))))))"

text \<open>
  Two readings of the loop, used to state its properties: the columns whose guard on
  line 36 holds, in the order the loop meets them, and the sample \<open>df[col].dropna()\<close>
  of a column that the frame has.
\<close>

definition compared :: "'a dataframe \<Rightarrow> 'a dataframe \<Rightarrow> string list" where
  "compared ref prd = filter (\<lambda>col. col \<noteq> ''Exited'' \<and> col \<in> set (columns prd)) (columns ref)"

definition sample :: "'a dataframe \<Rightarrow> string \<Rightarrow> 'a list" where
  "sample df col = (case getitem df col of Inl _ \<Rightarrow> [] | Inr cells \<Rightarrow> dropna cells)"

section \<open>Double-precision arithmetic of main.py\<close>

text \<open>
  \<open>log_drift_to_insights\<close> computes with doubles.  A finite double is the rational it
  denotes; every operation rounds the exact result to the nearest value with a 53-bit
  significand, ties to even.  Overflow and subnormals are not modelled: the quantities
  computed here are \<open>0\<close> or lie between \<open>1 / total\<close> and \<open>100\<close>.
\<close>

definition round_half_even :: "rat \<Rightarrow> int" where
  "round_half_even x =
     (let f = \<lfloor>x\<rfloor>; d = x - of_int f
      in if d < 1 / 2 then f else if 1 / 2 < d then f + 1 else if even f then f else f + 1)"

definition pow2 :: "int \<Rightarrow> rat" where
  "pow2 e = (if 0 \<le> e then 2 ^ nat e else 1 / 2 ^ nat (- e))"

text \<open>The exponent \<open>e\<close> with \<open>2 ^ e \<le> |x| < 2 ^ (e + 1)\<close>, for \<open>x \<noteq> 0\<close>.\<close>

definition binade :: "rat \<Rightarrow> int" where
  "binade x =
     (let (a, b) = quotient_of \<bar>x\<bar>; e = bitlen a - bitlen b
      in if pow2 e \<le> \<bar>x\<bar> then e else e - 1)"

definition fl :: "rat \<Rightarrow> rat" where
  "fl x =
     (if x = 0 then 0
      else let u = pow2 (binade x - 52) in of_int (round_half_even (x / u)) * u)"

text \<open>\<open>a / b\<close> on Python ints: the correctly rounded quotient, or \<open>ZeroDivisionError\<close>.\<close>

definition truediv :: "int \<Rightarrow> int \<Rightarrow> exn + rat" where
  "truediv a b =
     (if b = 0 then Inl (ZeroDivisionError ''division by zero'')
      else Inr (fl (of_int a / of_int b)))"

definition float_mul :: "rat \<Rightarrow> rat \<Rightarrow> rat" where
  "float_mul x y = fl (x * y)"

text \<open>
  \<open>round(x, ndigits)\<close> on a float: the exact value of \<open>x\<close> rounded half-even to
  \<open>ndigits\<close> decimals, then converted to the nearest double.
\<close>

definition py_round :: "rat \<Rightarrow> nat \<Rightarrow> rat" where
  "py_round x ndigits = fl (of_int (round_half_even (x * 10 ^ ndigits)) / 10 ^ ndigits)"

section \<open>main.py\<close>

datatype log_record =
    DriftDetection rat string
  | FeatureDrift string pyfloat pyfloat string
  | DriftError exn

text \<open>Line 227: the risk band of a percentage.\<close>

definition risk_level :: "rat \<Rightarrow> string" where
  "risk_level percentage =
     (if percentage < 20 then ''LOW'' else if percentage < 50 then ''MEDIUM'' else ''HIGH'')"

text \<open>Lines 223 to 225; \<open>if total\<close> is \<open>total \<noteq> 0\<close>.\<close>

definition drift_percentage :: "results \<Rightarrow> exn + rat" where
  "drift_percentage drift_results =
     (let total = int (length drift_results);
          drifted = int (length (filter (\<lambda>(_, r). drift_detected r) drift_results))
      in if total \<noteq> 0 then
           (case truediv drifted total of
              Inl e \<Rightarrow> Inl e
            | Inr q \<Rightarrow> Inr (py_round (float_mul q 100) 2))
         else Inr 0)"

text \<open>Lines 240 to 250: one record for each feature whose flag is set, in dict order.\<close>

fun feature_logs :: "results \<Rightarrow> log_record list" where
  "feature_logs [] = []"
| "feature_logs ((feature, details) # rest) =
     (if drift_detected details
      then FeatureDrift feature (p_value details) (statistic details) (type' details)
             # feature_logs rest
      else feature_logs rest)"

text \<open>
  \<open>log_drift_to_insights\<close> returns nothing; its outcome is the records it hands to the
  logger, or the exception it raises.
\<close>

definition log_drift_to_insights :: "results \<Rightarrow> exn + log_record list" where
  "log_drift_to_insights drift_results =
     (case drift_percentage drift_results of
        Inl e \<Rightarrow> Inl e
      | Inr percentage \<Rightarrow>
          Inr (DriftDetection percentage (risk_level percentage) # feature_logs drift_results))"

datatype http_error = HTTPException nat string

record drift_response =
  status :: string
  features_analyzed :: nat
  features_drifted :: nat
  results_of :: results

text \<open>The two \<open>except\<close> clauses of \<open>check_drift\<close>, lines 280 to 290.\<close>

fun drift_except :: "exn \<Rightarrow> http_error \<times> log_record list" where
  "drift_except (FileNotFoundError msg) =
     (HTTPException 404 (''Fichier non trouv'' @ [CHR 0xE9] @ '': '' @ msg), [])"
| "drift_except e = (HTTPException 500 ''Drift check failed'', [DriftError e])"

text \<open>
  \<open>check_drift\<close>: the response or the HTTP error, the file-system effects of the call and
  the records logged.  \<open>output_dir\<close> keeps its default.
\<close>

definition check_drift ::
  "'a world \<Rightarrow> pyfloat \<Rightarrow> (http_error + drift_response) \<times> effect list \<times> log_record list" where
  "check_drift w threshold =
     (case detect_drift w ''data/bank_churn.csv'' ''data/production_data.csv'' threshold
             ''drift_reports'' of
        (Inl e, effects) \<Rightarrow> (Inl (fst (drift_except e)), effects, snd (drift_except e))
      | (Inr results, effects) \<Rightarrow>
          (case log_drift_to_insights results of
             Inl e \<Rightarrow> (Inl (fst (drift_except e)), effects, snd (drift_except e))
           | Inr logs \<Rightarrow>
               (Inr \<lparr>status = ''success'',
                     features_analyzed = length results,
                     features_drifted =
                       length (filter (\<lambda>(_, r). drift_detected r) results),
                     results_of = results\<rparr>,
                effects, logs)))"

section \<open>The two-sample Kolmogorov-Smirnov test\<close>

text \<open>
  \<open>scipy.stats.ks_2samp\<close>, which \<open>detect_drift\<close> calls, is library code and not part of
  the sources: the engine above takes it from its environment.  The definitions of this
  section give the test as the specification describes it (4.2).
\<close>

text \<open>
  Modelled from the spec: the empirical distribution function of a sample, which
  \<open>ks_2samp\<close> builds for each of its two arguments.
\<close>

definition ecdf :: "'a::linorder list \<Rightarrow> 'a \<Rightarrow> real" where
  "ecdf xs x = real (length (filter (\<lambda>y. y \<le> x) xs)) / real (length xs)"

text \<open>
  Modelled from the spec: the statistic of \<open>ks_2samp\<close>, \<open>D = sup |F1 x - F2 x|\<close>, the
  largest gap between the two empirical distribution functions, found by walking the
  merged sorted sample values and tracking both functions at each step.
\<close>

definition ks_statistic :: "'a::linorder list \<Rightarrow> 'a list \<Rightarrow> real" where
  "ks_statistic xs ys =
     fold max (map (\<lambda>x. \<bar>ecdf xs x - ecdf ys x\<bar>) (sort (xs @ ys))) 0"

text \<open>
  Modelled from the spec: the effective sample size \<open>n1 * n2 / (n1 + n2)\<close> that
  \<open>ks_2samp\<close> uses for the p-value.
\<close>

definition n_eff :: "nat \<Rightarrow> nat \<Rightarrow> real" where
  "n_eff n1 n2 = real (n1 * n2) / real (n1 + n2)"

text \<open>
  Modelled from the spec: the asymptotic Kolmogorov distribution from which \<open>ks_2samp\<close>
  takes the two-sided p-value.  This is its survival function; the distribution function
  is \<open>0\<close> on the non-positive reals and \<open>1 - 2 * (\<Sum>j\<ge>1. (-1) ^ (j - 1) * exp (- 2 j\<^sup>2 x\<^sup>2))\<close>
  on the positive ones.
\<close>

definition kolmogorov_sf :: "real \<Rightarrow> real" where
  "kolmogorov_sf x =
     (if x \<le> 0 then 1
      else 2 * (\<Sum>j. (- 1) ^ j * exp (- 2 * (real (Suc j)) ^ 2 * x ^ 2)))"

text \<open>
  Modelled from the spec: \<open>ks_2samp\<close> itself, the statistic and the p-value at
  \<open>sqrt n_eff * D\<close>.  When a sample is empty the statistic and the p-value are undefined
  by the test: the model raises.
\<close>

definition ks_2samp_spec :: "'a::linorder list \<Rightarrow> 'a list \<Rightarrow> exn + (pyfloat \<times> pyfloat)" where
  "ks_2samp_spec xs ys =
     (if xs = [] \<or> ys = [] then Inl (ValueError ''DegenerateSample'')
      else let d = ks_statistic xs ys
           in Inr (Finite d, Finite (kolmogorov_sf (sqrt (n_eff (length xs) (length ys)) * d))))"

text \<open>
  Modelled from the spec: what the engine does with an empty sample is left open by the
  specification, and differs between releases of the library.  \<open>on_empty d ks\<close> is the
  test \<open>ks\<close> wherever both samples are non-empty, and \<open>d\<close> where one is empty.
\<close>

definition on_empty ::
  "('a list \<Rightarrow> 'a list \<Rightarrow> exn + (pyfloat \<times> pyfloat)) \<Rightarrow>
   ('a list \<Rightarrow> 'a list \<Rightarrow> exn + (pyfloat \<times> pyfloat)) \<Rightarrow>
   'a list \<Rightarrow> 'a list \<Rightarrow> exn + (pyfloat \<times> pyfloat)" where
  "on_empty d ks xs ys = (if xs = [] \<or> ys = [] then d xs ys else ks xs ys)"

text \<open>One answer to an empty sample: NaN for the statistic and for the p-value.\<close>

definition answer_nan :: "'a list \<Rightarrow> 'a list \<Rightarrow> exn + (pyfloat \<times> pyfloat)" where
  "answer_nan xs ys = Inr (NaN, NaN)"

section \<open>Concrete runs\<close>

text \<open>
  Small data sets and environments on which the engine is run below.  \<open>Tenure\<close> is a
  column of the reference file only, \<open>Geography\<close> of the production file only.
\<close>

definition churn_ref :: "int dataframe" where
  "churn_ref =
     [(''CreditScore'', [Some 600, Some 700, None]),
      (''Age'', [Some 30, Some 40, Some 50]),
      (''Exited'', [Some 0, Some 1, Some 0]),
      (''Tenure'', [Some 1, Some 2, Some 3])]"

definition churn_prod :: "int dataframe" where
  "churn_prod =
     [(''Age'', [Some 30, Some 40, Some 50]),
      (''CreditScore'', [Some 650, None, Some 720]),
      (''Exited'', [Some 1, Some 1, Some 0]),
      (''Geography'', [Some 1, Some 2, Some 0])]"

text \<open>The same production file with every \<open>Age\<close> cell missing.\<close>

definition churn_prod_no_age :: "int dataframe" where
  "churn_prod_no_age =
     [(''Age'', [None, None, None]),
      (''CreditScore'', [Some 650, None, Some 720]),
      (''Exited'', [Some 1, Some 1, Some 0]),
      (''Geography'', [Some 1, Some 2, Some 0])]"

text \<open>
  Two stand-ins for the library test, differing on an empty sample: the first raises
  \<open>ValueError\<close>, as the releases of SciPy that reject empty input do; the second returns
  NaN for both numbers, as the releases that accept it do.  On non-empty samples both
  report no difference for equal samples and a p-value of \<open>0.01\<close> otherwise.
\<close>

definition ks_raising :: "int list \<Rightarrow> int list \<Rightarrow> exn + (pyfloat \<times> pyfloat)" where
  "ks_raising xs ys =
     (if xs = [] \<or> ys = [] then Inl (ValueError ''Data passed to ks_2samp must not be empty'')
      else if xs = ys then Inr (Finite 0, Finite 1)
      else Inr (Finite 1, Finite (1 / 100)))"

definition ks_nan :: "int list \<Rightarrow> int list \<Rightarrow> exn + (pyfloat \<times> pyfloat)" where
  "ks_nan xs ys = (if xs = [] \<or> ys = [] then Inr (NaN, NaN) else ks_raising xs ys)"

definition files :: "int dataframe \<Rightarrow> int dataframe \<Rightarrow> string \<Rightarrow> exn + int dataframe" where
  "files r p path =
     (if path = ''data/bank_churn.csv'' then Inr r
      else if path = ''data/production_data.csv'' then Inr p
      else Inl (FileNotFoundError path))"

definition demo_world ::
  "int dataframe \<Rightarrow> int dataframe \<Rightarrow> (int list \<Rightarrow> int list \<Rightarrow> exn + (pyfloat \<times> pyfloat)) \<Rightarrow>
   int world" where
  "demo_world r p ks =
     \<lparr>makedirs = (\<lambda>_. None), read_csv = files r p, ks_2samp = ks,
      strftime_now = ''20240101_120000'', json_dump_to = (\<lambda>_. None)\<rparr>"

text \<open>The first environment, except that the artifact cannot be written.\<close>

definition unwritable_world :: "int world" where
  "unwritable_world =
     (demo_world churn_ref churn_prod ks_raising)
       \<lparr>json_dump_to := (\<lambda>path. Some (PermissionError path))\<rparr>"

text \<open>The reference file is there, the production file is not.\<close>

definition no_production_world :: "int world" where
  "no_production_world =
     \<lparr>makedirs = (\<lambda>_. None),
      read_csv = (\<lambda>path. if path = ''data/bank_churn.csv'' then Inr churn_ref
                          else Inl (FileNotFoundError path)),
      ks_2samp = ks_raising,
      strftime_now = ''20240101_120000'',
      json_dump_to = (\<lambda>_. None)\<rparr>"

text \<open>No data files, and a working directory in which nothing can be created.\<close>

definition readonly_world :: "int world" where
  "readonly_world =
     \<lparr>makedirs = (\<lambda>d. Some (PermissionError d)),
      read_csv = (\<lambda>path. Inl (FileNotFoundError path)),
      ks_2samp = ks_raising,
      strftime_now = ''20240101_120000'',
      json_dump_to = (\<lambda>path. Some (PermissionError path))\<rparr>"

text \<open>What the engine returns on \<open>churn_ref\<close> and \<open>churn_prod\<close> at threshold \<open>t\<close>.\<close>

definition demo_results :: "pyfloat \<Rightarrow> results" where
  "demo_results t =
     [(''CreditScore'',
       \<lparr>p_value = Finite (1 / 100), statistic = Finite 1,
        drift_detected = float_lt (Finite (1 / 100)) t, type' = ''numerical''\<rparr>),
      (''Age'',
       \<lparr>p_value = Finite 1, statistic = Finite 0,
        drift_detected = float_lt (Finite 1) t, type' = ''numerical''\<rparr>)]"

text \<open>
  A file in which every \<open>CreditScore\<close> cell is missing, used as reference and as
  production file at once, and what the engine returns on it when the test is that of
  the specification and the library answers NaN for an empty sample.
\<close>

definition churn_blank :: "int dataframe" where
  "churn_blank =
     [(''CreditScore'', [None, None, None]),
      (''Age'', [Some 30, Some 40, Some 50]),
      (''Exited'', [Some 0, Some 1, Some 0])]"

definition blank_results :: "pyfloat \<Rightarrow> results" where
  "blank_results t =
     [(''CreditScore'',
       \<lparr>p_value = NaN, statistic = NaN,
        drift_detected = float_lt NaN t, type' = ''numerical''\<rparr>),
      (''Age'',
       \<lparr>p_value = Finite 1, statistic = Finite 0,
        drift_detected = float_lt (Finite 1) t, type' = ''numerical''\<rparr>)]"

text \<open>
  The first environment, except that the output directory is gone by the time the
  artifact is opened: the write fails as not found.
\<close>

definition vanished_dir_world :: "int world" where
  "vanished_dir_world =
     (demo_world churn_ref churn_prod ks_raising)
       \<lparr>json_dump_to := (\<lambda>path. Some (FileNotFoundError path))\<rparr>"

section \<open>The loop of detect_drift\<close>

lemma drift_loop_keys:
  "drift_loop ks ref prd t cols res = Inr R \<Longrightarrow>
   fst ` set R = fst ` set res \<union> {c \<in> set cols. c \<noteq> ''Exited'' \<and> c \<in> set (columns prd)}"
proof (induction cols arbitrary: res)
  case Nil
  then show ?case by simp
next
  case (Cons col cols)
  show ?case
  proof (cases "col \<noteq> ''Exited'' \<and> col \<in> set (columns prd)")
    case False
    with Cons.prems have "drift_loop ks ref prd t cols res = Inr R" by auto
    from Cons.IH [OF this] False show ?thesis by auto
  next
    case True
    with Cons.prems obtain stat p where
      step: "drift_loop ks ref prd t cols
               (AList.update col \<lparr>p_value = p, statistic = stat,
                  drift_detected = float_lt p t, type' = ''numerical''\<rparr> res) = Inr R"
      by (auto split: sum.splits prod.splits)
    from Cons.IH [OF step] True show ?thesis
      by (auto simp: dom_update)
  qed
qed

lemma drift_loop_distinct:
  "drift_loop ks ref prd t cols res = Inr R \<Longrightarrow> distinct (map fst res) \<Longrightarrow>
   distinct (map fst R)"
proof (induction cols arbitrary: res)
  case Nil
  then show ?case by simp
next
  case (Cons col cols)
  show ?case
  proof (cases "col \<noteq> ''Exited'' \<and> col \<in> set (columns prd)")
    case False
    with Cons.prems have "drift_loop ks ref prd t cols res = Inr R" by auto
    from Cons.IH [OF this Cons.prems(2)] show ?thesis .
  next
    case True
    with Cons.prems(1) obtain stat p where
      step: "drift_loop ks ref prd t cols
               (AList.update col \<lparr>p_value = p, statistic = stat,
                  drift_detected = float_lt p t, type' = ''numerical''\<rparr> res) = Inr R"
      by (auto split: sum.splits prod.splits)
    show ?thesis
      by (rule Cons.IH [OF step]) (simp add: distinct_update Cons.prems(2))
  qed
qed

text \<open>
  Every entry of the dict was either there before the loop or was stored by the loop
  body for its own column, from what the test returned on that column's two samples.
\<close>

lemma drift_loop_entries:
  "drift_loop ks ref prd t cols res = Inr R \<Longrightarrow> map_of R c = Some r \<Longrightarrow>
   map_of res c = Some r \<or>
   (\<exists>rc pc stat p. getitem ref c = Inr rc \<and> getitem prd c = Inr pc \<and>
      ks (dropna rc) (dropna pc) = Inr (stat, p) \<and>
      r = \<lparr>p_value = p, statistic = stat, drift_detected = float_lt p t,
           type' = ''numerical''\<rparr>)"
proof (induction cols arbitrary: res)
  case Nil
  then show ?case by simp
next
  case (Cons col cols)
  show ?case
  proof (cases "col \<noteq> ''Exited'' \<and> col \<in> set (columns prd)")
    case False
    with Cons.prems have "drift_loop ks ref prd t cols res = Inr R" by auto
    from Cons.IH [OF this Cons.prems(2)] show ?thesis .
  next
    case True
    with Cons.prems(1) obtain rc pc stat p where
      g: "getitem ref col = Inr rc" "getitem prd col = Inr pc"
        "ks (dropna rc) (dropna pc) = Inr (stat, p)" and
      step: "drift_loop ks ref prd t cols
               (AList.update col \<lparr>p_value = p, statistic = stat,
                  drift_detected = float_lt p t, type' = ''numerical''\<rparr> res) = Inr R"
      by (auto split: sum.splits prod.splits)
    from Cons.IH [OF step Cons.prems(2)] g show ?thesis
      by (auto simp: update_conv' split: if_splits)
  qed
qed

text \<open>What a returning call of \<open>detect_drift\<close> went through.\<close>

lemma detect_drift_returns:
  assumes "detect_drift w rf pf t od = (Inr R, eff)"
  obtains ref prd where
    "makedirs w od = None" "read_csv w rf = Inr ref" "read_csv w pf = Inr prd"
    "drift_loop (ks_2samp w) ref prd t (columns ref) [] = Inr R"
    "json_dump_to w (report_path od (strftime_now w)) = None"
    "eff = [MkDir od, WriteJson (report_path od (strftime_now w)) R]"
  using assms unfolding detect_drift_def
  by (auto split: option.splits sum.splits)

lemma detect_drift_entry:
  assumes "detect_drift w rf pf t od = (Inr R, eff)" and "(c, r) \<in> set R"
  obtains ref prd rc pc stat p where
    "read_csv w rf = Inr ref" "read_csv w pf = Inr prd"
    "getitem ref c = Inr rc" "getitem prd c = Inr pc"
    "ks_2samp w (dropna rc) (dropna pc) = Inr (stat, p)"
    "r = \<lparr>p_value = p, statistic = stat, drift_detected = float_lt p t,
          type' = ''numerical''\<rparr>"
proof -
  from assms(1) obtain ref prd where
    rd: "read_csv w rf = Inr ref" "read_csv w pf = Inr prd" and
    lp: "drift_loop (ks_2samp w) ref prd t (columns ref) [] = Inr R"
    by (rule detect_drift_returns)
  from drift_loop_distinct [OF lp] have "distinct (map fst R)" by simp
  with assms(2) have "map_of R c = Some r" by simp
  from drift_loop_entries [OF lp this] rd that show thesis by auto
qed

lemma detect_drift_keys:
  assumes "detect_drift w rf pf t od = (Inr R, eff)"
    and "read_csv w rf = Inr ref" and "read_csv w pf = Inr prd"
  shows "set (map fst R) = set (compared ref prd)"
proof -
  from assms(1) obtain ref' prd' where
    "read_csv w rf = Inr ref'" "read_csv w pf = Inr prd'"
    "drift_loop (ks_2samp w) ref' prd' t (columns ref') [] = Inr R"
    by (rule detect_drift_returns)
  with assms(2,3) have "drift_loop (ks_2samp w) ref prd t (columns ref) [] = Inr R"
    by simp
  from drift_loop_keys [OF this] show ?thesis
    by (auto simp: compared_def)
qed

lemma float_lt_trans: "float_lt a b \<Longrightarrow> float_lt b c \<Longrightarrow> float_lt a c"
  by (cases a; cases b; cases c) auto

section \<open>The concrete runs, evaluated\<close>

lemma demo_run:
  "detect_drift (demo_world churn_ref churn_prod ks_raising)
     ''data/bank_churn.csv'' ''data/production_data.csv'' t ''drift_reports'' =
   (Inr (demo_results t),
    [MkDir ''drift_reports'',
     WriteJson ''drift_reports/drift_20240101_120000.json'' (demo_results t)])"
  by (simp add: detect_drift_def demo_world_def files_def churn_ref_def churn_prod_def
      ks_raising_def columns_def getitem_def report_path_def demo_results_def)

lemma demo_files:
  "read_csv (demo_world r p ks) ''data/bank_churn.csv'' = Inr r"
  "read_csv (demo_world r p ks) ''data/production_data.csv'' = Inr p"
  by (simp_all add: demo_world_def files_def)

lemma half_is_fifty_percent: "py_round (float_mul (fl (1 / 2)) 100) 2 = 50"
  by code_simp

text \<open>
  The whole endpoint on the two files at the default threshold: two features analysed,
  one flagged, hence 50 percent and \<open>HIGH\<close>.
\<close>

lemma demo_check:
  "check_drift (demo_world churn_ref churn_prod ks_raising) (Finite (5 / 100)) =
   (Inr \<lparr>status = ''success'', features_analyzed = 2, features_drifted = 1,
         results_of = demo_results (Finite (5 / 100))\<rparr>,
    [MkDir ''drift_reports'',
     WriteJson ''drift_reports/drift_20240101_120000.json'' (demo_results (Finite (5 / 100)))],
    [DriftDetection 50 ''HIGH'',
     FeatureDrift ''CreditScore'' (Finite (1 / 100)) (Finite 1) ''numerical''])"
  by (simp add: check_drift_def demo_run log_drift_to_insights_def drift_percentage_def
      truediv_def half_is_fifty_percent risk_level_def demo_results_def)

section \<open>Per-feature results\<close>

text \<open>
  C1.  For every feature in the results of a check run with threshold \<open>t\<close>, the flag
  \<open>drift_detected\<close> is the comparison \<open>p_value < t\<close> of that feature's own p-value with
  the threshold of the call, and of nothing else.
\<close>

theorem flag_is_p_below_threshold:
  assumes "detect_drift w rf pf t od = (Inr R, eff)" and "(c, r) \<in> set R"
  shows "drift_detected r = float_lt (p_value r) t"
proof -
  from assms obtain stat p where
    "r = \<lparr>p_value = p, statistic = stat, drift_detected = float_lt p t,
          type' = ''numerical''\<rparr>"
    by (rule detect_drift_entry)
  then show ?thesis by simp
qed

theorem flag_is_p_below_threshold_witness:
  "detect_drift (demo_world churn_ref churn_prod ks_raising)
     ''data/bank_churn.csv'' ''data/production_data.csv'' (Finite (5 / 100)) ''drift_reports'' =
   (Inr (demo_results (Finite (5 / 100))),
    [MkDir ''drift_reports'',
     WriteJson ''drift_reports/drift_20240101_120000.json'' (demo_results (Finite (5 / 100)))]) \<and>
   (''CreditScore'',
    \<lparr>p_value = Finite (1 / 100), statistic = Finite 1, drift_detected = True,
     type' = ''numerical''\<rparr>) \<in> set (demo_results (Finite (5 / 100))) \<and>
   drift_detected
     \<lparr>p_value = Finite (1 / 100), statistic = Finite 1, drift_detected = True,
      type' = ''numerical''\<rparr> =
   float_lt
     (p_value
        \<lparr>p_value = Finite (1 / 100), statistic = Finite 1, drift_detected = True,
         type' = ''numerical''\<rparr>)
     (Finite (5 / 100))"
proof -
  have mem: "(''CreditScore'',
      \<lparr>p_value = Finite (1 / 100), statistic = Finite 1, drift_detected = True,
       type' = ''numerical''\<rparr>) \<in> set (demo_results (Finite (5 / 100)))"
    by (simp add: demo_results_def)
  from flag_is_p_below_threshold [OF demo_run mem] demo_run mem show ?thesis by blast
qed

text \<open>
  C10.  For every feature in the results of a check, the \<open>type\<close> field is the string
  \<open>numerical\<close>, whatever the cells of the column are: the cell type is arbitrary.
\<close>

theorem type_is_numerical:
  assumes "detect_drift w rf pf t od = (Inr R, eff)" and "(c, r) \<in> set R"
  shows "type' r = ''numerical''"
proof -
  from assms obtain stat p where
    "r = \<lparr>p_value = p, statistic = stat, drift_detected = float_lt p t,
          type' = ''numerical''\<rparr>"
    by (rule detect_drift_entry)
  then show ?thesis by simp
qed

theorem type_is_numerical_witness:
  "detect_drift (demo_world churn_ref churn_prod ks_raising)
     ''data/bank_churn.csv'' ''data/production_data.csv'' (Finite (5 / 100)) ''drift_reports'' =
   (Inr (demo_results (Finite (5 / 100))),
    [MkDir ''drift_reports'',
     WriteJson ''drift_reports/drift_20240101_120000.json'' (demo_results (Finite (5 / 100)))]) \<and>
   (''Age'',
    \<lparr>p_value = Finite 1, statistic = Finite 0, drift_detected = False,
     type' = ''numerical''\<rparr>) \<in> set (demo_results (Finite (5 / 100))) \<and>
   type' \<lparr>p_value = Finite 1, statistic = Finite 0, drift_detected = False,
          type' = ''numerical''\<rparr> = ''numerical''"
proof -
  have mem: "(''Age'',
      \<lparr>p_value = Finite 1, statistic = Finite 0, drift_detected = False,
       type' = ''numerical''\<rparr>) \<in> set (demo_results (Finite (5 / 100)))"
    by (simp add: demo_results_def)
  from type_is_numerical [OF demo_run mem] demo_run mem show ?thesis by blast
qed

text \<open>
  C5.  The feature names in the results of a check are exactly the column names that
  occur in both the reference and the production data set, without \<open>Exited\<close>.
\<close>

theorem features_are_shared_columns:
  assumes "detect_drift w rf pf t od = (Inr R, eff)"
    and "read_csv w rf = Inr ref" and "read_csv w pf = Inr prd"
  shows "set (map fst R) = set (columns ref) \<inter> set (columns prd) - {''Exited''}"
  using detect_drift_keys [OF assms] by (auto simp: compared_def)

theorem features_are_shared_columns_witness:
  "detect_drift (demo_world churn_ref churn_prod ks_raising)
     ''data/bank_churn.csv'' ''data/production_data.csv'' (Finite (5 / 100)) ''drift_reports'' =
   (Inr (demo_results (Finite (5 / 100))),
    [MkDir ''drift_reports'',
     WriteJson ''drift_reports/drift_20240101_120000.json'' (demo_results (Finite (5 / 100)))]) \<and>
   read_csv (demo_world churn_ref churn_prod ks_raising) ''data/bank_churn.csv'' = Inr churn_ref \<and>
   read_csv (demo_world churn_ref churn_prod ks_raising) ''data/production_data.csv'' =
     Inr churn_prod \<and>
   set (map fst (demo_results (Finite (5 / 100)))) =
     set (columns churn_ref) \<inter> set (columns churn_prod) - {''Exited''} \<and>
   set (map fst (demo_results (Finite (5 / 100)))) = {''CreditScore'', ''Age''}"
  using features_are_shared_columns [OF demo_run demo_files]
  by (simp add: demo_run demo_files demo_results_def)

text \<open>
  C7.  For two runs of the check on the same data sets with thresholds \<open>t1 < t2\<close>, every
  feature flagged at \<open>t1\<close> is flagged at \<open>t2\<close>.
\<close>

theorem threshold_monotone:
  assumes lt: "float_lt t1 t2"
    and same: "read_csv w2 = read_csv w1" "ks_2samp w2 = ks_2samp w1"
    and run1: "detect_drift w1 rf pf t1 od1 = (Inr R1, eff1)"
    and run2: "detect_drift w2 rf pf t2 od2 = (Inr R2, eff2)"
  shows "{c. \<exists>r. (c, r) \<in> set R1 \<and> drift_detected r} \<subseteq>
         {c. \<exists>r. (c, r) \<in> set R2 \<and> drift_detected r}"
proof
  fix c
  assume "c \<in> {c. \<exists>r. (c, r) \<in> set R1 \<and> drift_detected r}"
  then obtain r1 where r1: "(c, r1) \<in> set R1" "drift_detected r1" by blast
  from run1 r1(1) obtain ref prd rc pc stat p where
    rd: "read_csv w1 rf = Inr ref" "read_csv w1 pf = Inr prd" and
    g: "getitem ref c = Inr rc" "getitem prd c = Inr pc" and
    k: "ks_2samp w1 (dropna rc) (dropna pc) = Inr (stat, p)" and
    r1_eq: "r1 = \<lparr>p_value = p, statistic = stat, drift_detected = float_lt p t1,
                  type' = ''numerical''\<rparr>"
    by (rule detect_drift_entry)
  from rd same have rd2: "read_csv w2 rf = Inr ref" "read_csv w2 pf = Inr prd" by simp_all
  have "set (map fst R1) = set (map fst R2)"
    using detect_drift_keys [OF run1 rd] detect_drift_keys [OF run2 rd2] by simp
  with r1(1) obtain r2 where r2: "(c, r2) \<in> set R2" by force
  from run2 r2 obtain ref' prd' rc' pc' stat' p' where
    rd': "read_csv w2 rf = Inr ref'" "read_csv w2 pf = Inr prd'" and
    g': "getitem ref' c = Inr rc'" "getitem prd' c = Inr pc'" and
    k': "ks_2samp w2 (dropna rc') (dropna pc') = Inr (stat', p')" and
    r2_eq: "r2 = \<lparr>p_value = p', statistic = stat', drift_detected = float_lt p' t2,
                  type' = ''numerical''\<rparr>"
    by (rule detect_drift_entry)
  from rd' rd2 g g' k k' same have "p' = p" by simp
  moreover from r1(2) r1_eq have "float_lt p t1" by simp
  ultimately have "drift_detected r2"
    using r2_eq float_lt_trans [OF _ lt] by simp
  with r2 show "c \<in> {c. \<exists>r. (c, r) \<in> set R2 \<and> drift_detected r}" by blast
qed

theorem threshold_monotone_witness:
  "float_lt (Finite (1 / 200)) (Finite (5 / 100)) \<and>
   read_csv (demo_world churn_ref churn_prod ks_raising) =
     read_csv (demo_world churn_ref churn_prod ks_raising) \<and>
   ks_2samp (demo_world churn_ref churn_prod ks_raising) =
     ks_2samp (demo_world churn_ref churn_prod ks_raising) \<and>
   detect_drift (demo_world churn_ref churn_prod ks_raising)
     ''data/bank_churn.csv'' ''data/production_data.csv'' (Finite (1 / 200)) ''drift_reports'' =
   (Inr (demo_results (Finite (1 / 200))),
    [MkDir ''drift_reports'',
     WriteJson ''drift_reports/drift_20240101_120000.json'' (demo_results (Finite (1 / 200)))]) \<and>
   detect_drift (demo_world churn_ref churn_prod ks_raising)
     ''data/bank_churn.csv'' ''data/production_data.csv'' (Finite (5 / 100)) ''drift_reports'' =
   (Inr (demo_results (Finite (5 / 100))),
    [MkDir ''drift_reports'',
     WriteJson ''drift_reports/drift_20240101_120000.json'' (demo_results (Finite (5 / 100)))]) \<and>
   {c. \<exists>r. (c, r) \<in> set (demo_results (Finite (1 / 200))) \<and> drift_detected r} \<subseteq>
   {c. \<exists>r. (c, r) \<in> set (demo_results (Finite (5 / 100))) \<and> drift_detected r} \<and>
   {c. \<exists>r. (c, r) \<in> set (demo_results (Finite (1 / 200))) \<and> drift_detected r} = {} \<and>
   ''CreditScore'' \<in>
     {c. \<exists>r. (c, r) \<in> set (demo_results (Finite (5 / 100))) \<and> drift_detected r}"
proof -
  have lt: "float_lt (Finite (1 / 200)) (Finite (5 / 100))" by simp
  have lo: "{c. \<exists>r. (c, r) \<in> set (demo_results (Finite (1 / 200))) \<and> drift_detected r} = {}"
    by (auto simp: demo_results_def)
  have hi: "''CreditScore'' \<in>
      {c. \<exists>r. (c, r) \<in> set (demo_results (Finite (5 / 100))) \<and> drift_detected r}"
    by (simp add: demo_results_def)
  show ?thesis
    by (intro conjI lt refl demo_run lo hi
        threshold_monotone [OF lt refl refl demo_run demo_run])
qed

section \<open>Exceptions inside detect_drift\<close>

text \<open>
  Nothing in \<open>detect_drift\<close> catches an exception: whatever a call raises ends the
  function.
\<close>

lemma getitem_column:
  "c \<in> set (columns df) \<Longrightarrow> \<exists>cells. getitem df c = Inr cells"
  by (cases "map_of df c") (auto simp: getitem_def columns_def map_of_eq_None_iff)

lemma drift_loop_raises:
  "c \<in> set cols \<Longrightarrow> c \<noteq> ''Exited'' \<Longrightarrow> c \<in> set (columns prd) \<Longrightarrow>
   ks (sample ref c) (sample prd c) = Inl e \<Longrightarrow>
   \<exists>e'. drift_loop ks ref prd t cols res = Inl e'"
proof (induction cols arbitrary: res)
  case Nil
  then show ?case by simp
next
  case (Cons col cols)
  show ?case
  proof (cases "c = col")
    case True
    with Cons.prems show ?thesis
      by (auto simp: sample_def split: sum.splits)
  next
    case False
    with Cons.prems have "c \<in> set cols" by simp
    from Cons.IH [OF this Cons.prems(2-4)] show ?thesis
      by (auto split: sum.splits)
  qed
qed

lemma drift_loop_returns:
  "set cols \<subseteq> set (columns ref) \<Longrightarrow>
   (\<forall>c\<in>set cols. c \<noteq> ''Exited'' \<and> c \<in> set (columns prd) \<longrightarrow>
      (\<exists>sp. ks (sample ref c) (sample prd c) = Inr sp)) \<Longrightarrow>
   \<exists>R. drift_loop ks ref prd t cols res = Inr R"
proof (induction cols arbitrary: res)
  case Nil
  then show ?case by simp
next
  case (Cons col cols)
  from Cons.prems have sub: "set cols \<subseteq> set (columns ref)" and
    rest: "\<forall>c\<in>set cols. c \<noteq> ''Exited'' \<and> c \<in> set (columns prd) \<longrightarrow>
      (\<exists>sp. ks (sample ref c) (sample prd c) = Inr sp)"
    by simp_all
  note IH = Cons.IH [OF sub rest]
  show ?case
  proof (cases "col \<noteq> ''Exited'' \<and> col \<in> set (columns prd)")
    case False
    with IH show ?thesis by auto
  next
    case True
    from Cons.prems(1) have "col \<in> set (columns ref)" by simp
    then obtain rc where rc: "getitem ref col = Inr rc" using getitem_column by blast
    from True obtain pc where pc: "getitem prd col = Inr pc" using getitem_column by blast
    from Cons.prems(2) True obtain stat p where
      "ks (sample ref col) (sample prd col) = Inr (stat, p)" by force
    with rc pc have "ks (dropna rc) (dropna pc) = Inr (stat, p)" by (simp add: sample_def)
    with True rc pc IH show ?thesis by simp
  qed
qed

text \<open>
  C3, as the code has it.  Take a check whose output directory was created and whose
  two data sets were loaded, and a compared feature \<open>c\<close> (for instance one whose sample is
  empty once the missing values are dropped).  If \<open>ks_2samp\<close> raises on the samples of
  \<open>c\<close>, the whole check ends with an exception: no feature's result is returned and no
  artifact is written.  If \<open>ks_2samp\<close> returns on the samples of every compared feature
  and the artifact is written, the check returns results that list every compared
  feature, \<open>c\<close> among them.
\<close>

theorem failed_comparison_aborts_check:
  assumes "makedirs w od = None" and "read_csv w rf = Inr ref" and "read_csv w pf = Inr prd"
    and "c \<in> set (compared ref prd)"
  shows "(ks_2samp w (sample ref c) (sample prd c) = Inl e \<longrightarrow>
            (\<exists>e'. detect_drift w rf pf t od = (Inl e', [MkDir od]))) \<and>
         ((\<forall>c'\<in>set (compared ref prd).
              \<exists>sp. ks_2samp w (sample ref c') (sample prd c') = Inr sp) \<and>
          json_dump_to w (report_path od (strftime_now w)) = None \<longrightarrow>
            (\<exists>R. detect_drift w rf pf t od =
                   (Inr R, [MkDir od, WriteJson (report_path od (strftime_now w)) R]) \<and>
                 set (map fst R) = set (compared ref prd)))"
proof (intro conjI impI)
  assume "ks_2samp w (sample ref c) (sample prd c) = Inl e"
  with assms(4) obtain e' where
    "drift_loop (ks_2samp w) ref prd t (columns ref) [] = Inl e'"
    using drift_loop_raises [of c "columns ref" prd "ks_2samp w" ref e t "[]"]
    by (auto simp: compared_def)
  with assms(1-3) show "\<exists>e'. detect_drift w rf pf t od = (Inl e', [MkDir od])"
    by (simp add: detect_drift_def)
next
  assume a: "(\<forall>c'\<in>set (compared ref prd).
      \<exists>sp. ks_2samp w (sample ref c') (sample prd c') = Inr sp) \<and>
    json_dump_to w (report_path od (strftime_now w)) = None"
  then have "\<forall>c\<in>set (columns ref). c \<noteq> ''Exited'' \<and> c \<in> set (columns prd) \<longrightarrow>
      (\<exists>sp. ks_2samp w (sample ref c) (sample prd c) = Inr sp)"
    by (simp add: compared_def)
  with drift_loop_returns [of "columns ref" ref prd "ks_2samp w" t "[]"]
  obtain R where lp: "drift_loop (ks_2samp w) ref prd t (columns ref) [] = Inr R" by blast
  with assms(1-3) a have run: "detect_drift w rf pf t od =
      (Inr R, [MkDir od, WriteJson (report_path od (strftime_now w)) R])"
    by (simp add: detect_drift_def)
  from detect_drift_keys [OF run assms(2,3)] run
  show "\<exists>R. detect_drift w rf pf t od =
        (Inr R, [MkDir od, WriteJson (report_path od (strftime_now w)) R]) \<and>
      set (map fst R) = set (compared ref prd)"
    by blast
qed

theorem failed_comparison_aborts_check_witness:
  "makedirs (demo_world churn_ref churn_prod_no_age ks_raising) ''drift_reports'' = None \<and>
   read_csv (demo_world churn_ref churn_prod_no_age ks_raising) ''data/bank_churn.csv'' =
     Inr churn_ref \<and>
   read_csv (demo_world churn_ref churn_prod_no_age ks_raising) ''data/production_data.csv'' =
     Inr churn_prod_no_age \<and>
   ''Age'' \<in> set (compared churn_ref churn_prod_no_age) \<and>
   sample churn_prod_no_age ''Age'' = [] \<and>
   ks_2samp (demo_world churn_ref churn_prod_no_age ks_raising)
     (sample churn_ref ''Age'') (sample churn_prod_no_age ''Age'') =
     Inl (ValueError ''Data passed to ks_2samp must not be empty'') \<and>
   (\<exists>e'. detect_drift (demo_world churn_ref churn_prod_no_age ks_raising)
      ''data/bank_churn.csv'' ''data/production_data.csv'' (Finite (5 / 100))
      ''drift_reports'' = (Inl e', [MkDir ''drift_reports''])) \<and>
   makedirs (demo_world churn_ref churn_prod_no_age ks_nan) ''drift_reports'' = None \<and>
   read_csv (demo_world churn_ref churn_prod_no_age ks_nan) ''data/bank_churn.csv'' =
     Inr churn_ref \<and>
   read_csv (demo_world churn_ref churn_prod_no_age ks_nan) ''data/production_data.csv'' =
     Inr churn_prod_no_age \<and>
   compared churn_ref churn_prod_no_age = [''CreditScore'', ''Age''] \<and>
   ks_2samp (demo_world churn_ref churn_prod_no_age ks_nan)
     (sample churn_ref ''CreditScore'') (sample churn_prod_no_age ''CreditScore'') =
     Inr (Finite 1, Finite (1 / 100)) \<and>
   ks_2samp (demo_world churn_ref churn_prod_no_age ks_nan)
     (sample churn_ref ''Age'') (sample churn_prod_no_age ''Age'') = Inr (NaN, NaN) \<and>
   json_dump_to (demo_world churn_ref churn_prod_no_age ks_nan)
     (report_path ''drift_reports''
        (strftime_now (demo_world churn_ref churn_prod_no_age ks_nan))) = None \<and>
   (\<exists>R. detect_drift (demo_world churn_ref churn_prod_no_age ks_nan)
      ''data/bank_churn.csv'' ''data/production_data.csv'' (Finite (5 / 100))
      ''drift_reports'' =
        (Inr R,
         [MkDir ''drift_reports'',
          WriteJson
            (report_path ''drift_reports''
               (strftime_now (demo_world churn_ref churn_prod_no_age ks_nan))) R]) \<and>
      set (map fst R) = set (compared churn_ref churn_prod_no_age))"
proof -
  let ?w1 = "demo_world churn_ref churn_prod_no_age ks_raising"
  let ?w2 = "demo_world churn_ref churn_prod_no_age ks_nan"
  have mk1: "makedirs ?w1 ''drift_reports'' = None" and mk2: "makedirs ?w2 ''drift_reports'' = None"
    by (simp_all add: demo_world_def)
  have cmp: "compared churn_ref churn_prod_no_age = [''CreditScore'', ''Age'']"
    by (simp add: compared_def columns_def churn_ref_def churn_prod_no_age_def)
  then have age: "''Age'' \<in> set (compared churn_ref churn_prod_no_age)" by simp
  have empty: "sample churn_prod_no_age ''Age'' = []"
    by (simp add: sample_def getitem_def churn_prod_no_age_def)
  have ks1: "ks_2samp ?w1 (sample churn_ref ''Age'') (sample churn_prod_no_age ''Age'') =
      Inl (ValueError ''Data passed to ks_2samp must not be empty'')"
    by (simp add: empty demo_world_def ks_raising_def)
  have ks2a: "ks_2samp ?w2 (sample churn_ref ''CreditScore'')
      (sample churn_prod_no_age ''CreditScore'') = Inr (Finite 1, Finite (1 / 100))"
    by (simp add: demo_world_def ks_nan_def ks_raising_def sample_def getitem_def churn_ref_def
        churn_prod_no_age_def)
  have ks2b: "ks_2samp ?w2 (sample churn_ref ''Age'') (sample churn_prod_no_age ''Age'') =
      Inr (NaN, NaN)"
    by (simp add: empty demo_world_def ks_nan_def)
  have all2: "\<forall>c'\<in>set (compared churn_ref churn_prod_no_age).
      \<exists>sp. ks_2samp ?w2 (sample churn_ref c') (sample churn_prod_no_age c') = Inr sp"
    using ks2a ks2b by (simp add: cmp)
  have wr: "json_dump_to ?w2 (report_path ''drift_reports'' (strftime_now ?w2)) = None"
    by (simp add: demo_world_def)
  note thm1 = failed_comparison_aborts_check [OF mk1 demo_files age,
      of "ValueError ''Data passed to ks_2samp must not be empty''" "Finite (5 / 100)"]
  note thm2 = failed_comparison_aborts_check [OF mk2 demo_files age,
      of "ValueError ''Data passed to ks_2samp must not be empty''" "Finite (5 / 100)"]
  from thm1 ks1 have abort: "\<exists>e'. detect_drift ?w1
      ''data/bank_churn.csv'' ''data/production_data.csv'' (Finite (5 / 100))
      ''drift_reports'' = (Inl e', [MkDir ''drift_reports''])"
    by (rule conjunct1 [THEN mp])
  from thm2 all2 wr have ok: "\<exists>R. detect_drift ?w2
      ''data/bank_churn.csv'' ''data/production_data.csv'' (Finite (5 / 100))
      ''drift_reports'' =
        (Inr R,
         [MkDir ''drift_reports'',
          WriteJson (report_path ''drift_reports'' (strftime_now ?w2)) R]) \<and>
      set (map fst R) = set (compared churn_ref churn_prod_no_age)"
    by blast
  show ?thesis
    by (intro conjI mk1 mk2 demo_files age empty ks1 abort cmp ks2a ks2b wr ok)
qed

text \<open>
  With every \<open>Age\<close> cell of the production file missing and a test that rejects an empty
  sample, the comparison of \<open>CreditScore\<close> is well defined, and yet the check returns no
  result at all.
\<close>

theorem empty_sample_aborts_check:
  "sample churn_prod_no_age ''Age'' = [] \<and>
   ks_raising (sample churn_ref ''CreditScore'') (sample churn_prod_no_age ''CreditScore'') =
     Inr (Finite 1, Finite (1 / 100)) \<and>
   detect_drift (demo_world churn_ref churn_prod_no_age ks_raising)
     ''data/bank_churn.csv'' ''data/production_data.csv'' (Finite (5 / 100)) ''drift_reports'' =
   (Inl (ValueError ''Data passed to ks_2samp must not be empty''), [MkDir ''drift_reports''])"
  by (simp add: detect_drift_def demo_world_def files_def churn_ref_def churn_prod_no_age_def
      ks_raising_def columns_def getitem_def sample_def)

text \<open>
  C4, as the code has it.  When the per-feature results have been computed and
  persisting the artifact fails, \<open>detect_drift\<close> raises the exception of the failed
  write and returns nothing.  \<open>check_drift\<close> then answers with an HTTP error and no
  results: 404 when the write failed with \<open>FileNotFoundError\<close>, 500 for every other
  exception.
\<close>

theorem write_failure_raises:
  assumes "makedirs w od = None" and "read_csv w rf = Inr ref" and "read_csv w pf = Inr prd"
    and "drift_loop (ks_2samp w) ref prd t (columns ref) [] = Inr R"
    and "json_dump_to w (report_path od (strftime_now w)) = Some e"
  shows "detect_drift w rf pf t od = (Inl e, [MkDir od]) \<and>
         (rf = ''data/bank_churn.csv'' \<and> pf = ''data/production_data.csv'' \<and>
          od = ''drift_reports'' \<longrightarrow>
            check_drift w t =
              (case e of
                 FileNotFoundError m \<Rightarrow>
                   (Inl (HTTPException 404 (''Fichier non trouv'' @ [CHR 0xE9] @ '': '' @ m)),
                    [MkDir ''drift_reports''], [])
               | _ \<Rightarrow>
                   (Inl (HTTPException 500 ''Drift check failed''),
                    [MkDir ''drift_reports''], [DriftError e])))"
proof (intro conjI impI)
  from assms show run: "detect_drift w rf pf t od = (Inl e, [MkDir od])"
    by (simp add: detect_drift_def)
  assume "rf = ''data/bank_churn.csv'' \<and> pf = ''data/production_data.csv'' \<and>
          od = ''drift_reports''"
  with run have "check_drift w t =
      (Inl (fst (drift_except e)), [MkDir ''drift_reports''], snd (drift_except e))"
    by (simp add: check_drift_def)
  then show "check_drift w t =
              (case e of
                 FileNotFoundError m \<Rightarrow>
                   (Inl (HTTPException 404 (''Fichier non trouv'' @ [CHR 0xE9] @ '': '' @ m)),
                    [MkDir ''drift_reports''], [])
               | _ \<Rightarrow>
                   (Inl (HTTPException 500 ''Drift check failed''),
                    [MkDir ''drift_reports''], [DriftError e]))"
    by (cases e) simp_all
qed

lemma write_refused_world:
  assumes "w = (demo_world churn_ref churn_prod ks_raising)\<lparr>json_dump_to := j\<rparr>"
  shows "makedirs w ''drift_reports'' = None"
    and "read_csv w ''data/bank_churn.csv'' = Inr churn_ref"
    and "read_csv w ''data/production_data.csv'' = Inr churn_prod"
    and "drift_loop (ks_2samp w) churn_ref churn_prod (Finite (5 / 100))
           (columns churn_ref) [] = Inr (demo_results (Finite (5 / 100)))"
    and "json_dump_to w (report_path ''drift_reports'' (strftime_now w)) =
           j ''drift_reports/drift_20240101_120000.json''"
  by (simp_all add: assms demo_world_def files_def churn_ref_def churn_prod_def
      ks_raising_def columns_def getitem_def demo_results_def report_path_def)

theorem write_failure_raises_witness:
  "makedirs unwritable_world ''drift_reports'' = None \<and>
   read_csv unwritable_world ''data/bank_churn.csv'' = Inr churn_ref \<and>
   read_csv unwritable_world ''data/production_data.csv'' = Inr churn_prod \<and>
   drift_loop (ks_2samp unwritable_world) churn_ref churn_prod (Finite (5 / 100))
     (columns churn_ref) [] = Inr (demo_results (Finite (5 / 100))) \<and>
   json_dump_to unwritable_world
     (report_path ''drift_reports'' (strftime_now unwritable_world)) =
     Some (PermissionError ''drift_reports/drift_20240101_120000.json'') \<and>
   detect_drift unwritable_world ''data/bank_churn.csv'' ''data/production_data.csv''
     (Finite (5 / 100)) ''drift_reports'' =
     (Inl (PermissionError ''drift_reports/drift_20240101_120000.json''),
      [MkDir ''drift_reports'']) \<and>
   check_drift unwritable_world (Finite (5 / 100)) =
     (Inl (HTTPException 500 ''Drift check failed''), [MkDir ''drift_reports''],
      [DriftError (PermissionError ''drift_reports/drift_20240101_120000.json'')]) \<and>
   json_dump_to vanished_dir_world
     (report_path ''drift_reports'' (strftime_now vanished_dir_world)) =
     Some (FileNotFoundError ''drift_reports/drift_20240101_120000.json'') \<and>
   detect_drift vanished_dir_world ''data/bank_churn.csv'' ''data/production_data.csv''
     (Finite (5 / 100)) ''drift_reports'' =
     (Inl (FileNotFoundError ''drift_reports/drift_20240101_120000.json''),
      [MkDir ''drift_reports'']) \<and>
   check_drift vanished_dir_world (Finite (5 / 100)) =
     (Inl (HTTPException 404
        (''Fichier non trouv'' @ [CHR 0xE9] @
         '': drift_reports/drift_20240101_120000.json'')),
      [MkDir ''drift_reports''], [])"
proof -
  note u = write_refused_world [OF unwritable_world_def]
  note v = write_refused_world [OF vanished_dir_world_def]
  have wu: "json_dump_to unwritable_world
      (report_path ''drift_reports'' (strftime_now unwritable_world)) =
      Some (PermissionError ''drift_reports/drift_20240101_120000.json'')"
    using u(5) by simp
  have wv: "json_dump_to vanished_dir_world
      (report_path ''drift_reports'' (strftime_now vanished_dir_world)) =
      Some (FileNotFoundError ''drift_reports/drift_20240101_120000.json'')"
    using v(5) by simp
  from write_failure_raises [OF u(1-4) wu]
  have ru: "detect_drift unwritable_world ''data/bank_churn.csv'' ''data/production_data.csv''
      (Finite (5 / 100)) ''drift_reports'' =
      (Inl (PermissionError ''drift_reports/drift_20240101_120000.json''),
       [MkDir ''drift_reports''])"
    and cu: "check_drift unwritable_world (Finite (5 / 100)) =
      (Inl (HTTPException 500 ''Drift check failed''), [MkDir ''drift_reports''],
       [DriftError (PermissionError ''drift_reports/drift_20240101_120000.json'')])"
    by simp_all
  from write_failure_raises [OF v(1-4) wv]
  have rv: "detect_drift vanished_dir_world ''data/bank_churn.csv''
      ''data/production_data.csv'' (Finite (5 / 100)) ''drift_reports'' =
      (Inl (FileNotFoundError ''drift_reports/drift_20240101_120000.json''),
       [MkDir ''drift_reports''])"
    and cv: "check_drift vanished_dir_world (Finite (5 / 100)) =
      (Inl (HTTPException 404
         (''Fichier non trouv'' @ [CHR 0xE9] @
          '': drift_reports/drift_20240101_120000.json'')),
       [MkDir ''drift_reports''], [])"
    by simp_all
  show ?thesis
    by (intro conjI u(1-4) wu ru cu wv rv cv)
qed

text \<open>
  The results of the two features are computed, the write is refused, and the caller
  gets the exception; \<open>check_drift\<close> answers 500 without any result.
\<close>

theorem write_failure_loses_results:
  "drift_loop ks_raising churn_ref churn_prod (Finite (5 / 100)) (columns churn_ref) [] =
     Inr (demo_results (Finite (5 / 100))) \<and>
   detect_drift
     unwritable_world
     ''data/bank_churn.csv'' ''data/production_data.csv'' (Finite (5 / 100)) ''drift_reports'' =
   (Inl (PermissionError ''drift_reports/drift_20240101_120000.json''),
    [MkDir ''drift_reports'']) \<and>
   check_drift
     unwritable_world (Finite (5 / 100)) =
   (Inl (HTTPException 500 ''Drift check failed''), [MkDir ''drift_reports''],
    [DriftError (PermissionError ''drift_reports/drift_20240101_120000.json'')])"
  by (simp add: check_drift_def detect_drift_def unwritable_world_def demo_world_def files_def
      churn_ref_def churn_prod_def ks_raising_def columns_def getitem_def report_path_def
      demo_results_def)

section \<open>Unresolved data files\<close>

lemma detect_drift_unresolved:
  assumes "read_csv w rf = Inl (FileNotFoundError m) \<or> read_csv w pf = Inl (FileNotFoundError m)"
  shows "(\<exists>e. detect_drift w rf pf t od = (Inl e, []) \<or>
              detect_drift w rf pf t od = (Inl e, [MkDir od]))"
  using assms by (auto simp: detect_drift_def split: option.splits sum.splits)

lemma detect_drift_not_found:
  assumes "read_csv w rf = Inl (FileNotFoundError m) \<or> read_csv w pf = Inl (FileNotFoundError m)"
    and "makedirs w od = None" and "\<forall>e. read_csv w rf = Inl e \<longrightarrow> e = FileNotFoundError m"
  shows "detect_drift w rf pf t od = (Inl (FileNotFoundError m), [MkDir od])"
  using assms by (auto simp: detect_drift_def split: option.splits sum.splits)

text \<open>
  C9, as the code has it.  In every check in which a data file cannot be found, no
  results are returned and no artifact is written: the check ends with an exception,
  having at most created the output directory.  When moreover the output directory
  could be created and the reference file, if its loading fails, fails as not found,
  \<open>detect_drift\<close> raises \<open>FileNotFoundError\<close>, and \<open>check_drift\<close> answers 404 with the
  message of that exception.
\<close>

theorem unresolved_locator_fails_check:
  assumes "read_csv w rf = Inl (FileNotFoundError m) \<or> read_csv w pf = Inl (FileNotFoundError m)"
  shows "(\<exists>e. detect_drift w rf pf t od = (Inl e, []) \<or>
              detect_drift w rf pf t od = (Inl e, [MkDir od])) \<and>
         (makedirs w od = None \<and> (\<forall>e. read_csv w rf = Inl e \<longrightarrow> e = FileNotFoundError m) \<longrightarrow>
            detect_drift w rf pf t od = (Inl (FileNotFoundError m), [MkDir od]) \<and>
            (rf = ''data/bank_churn.csv'' \<and> pf = ''data/production_data.csv'' \<and>
             od = ''drift_reports'' \<longrightarrow>
               check_drift w t =
                 (Inl (HTTPException 404 (''Fichier non trouv'' @ [CHR 0xE9] @ '': '' @ m)),
                  [MkDir ''drift_reports''], [])))"
proof (intro conjI impI)
  show "\<exists>e. detect_drift w rf pf t od = (Inl e, []) \<or>
              detect_drift w rf pf t od = (Inl e, [MkDir od])"
    using assms by (rule detect_drift_unresolved)
next
  assume a: "makedirs w od = None \<and> (\<forall>e. read_csv w rf = Inl e \<longrightarrow> e = FileNotFoundError m)"
  with assms show nf: "detect_drift w rf pf t od = (Inl (FileNotFoundError m), [MkDir od])"
    by (intro detect_drift_not_found) simp_all
  assume "rf = ''data/bank_churn.csv'' \<and> pf = ''data/production_data.csv'' \<and>
             od = ''drift_reports''"
  with nf show "check_drift w t =
                 (Inl (HTTPException 404 (''Fichier non trouv'' @ [CHR 0xE9] @ '': '' @ m)),
                  [MkDir ''drift_reports''], [])"
    by (simp add: check_drift_def)
qed

theorem unresolved_locator_fails_check_witness:
  "read_csv no_production_world ''data/production_data.csv'' =
     Inl (FileNotFoundError ''data/production_data.csv'') \<and>
   makedirs no_production_world ''drift_reports'' = None \<and>
   read_csv no_production_world ''data/bank_churn.csv'' = Inr churn_ref \<and>
   detect_drift no_production_world ''data/bank_churn.csv'' ''data/production_data.csv''
     (Finite (5 / 100)) ''drift_reports'' =
     (Inl (FileNotFoundError ''data/production_data.csv''), [MkDir ''drift_reports'']) \<and>
   check_drift no_production_world (Finite (5 / 100)) =
     (Inl (HTTPException 404
        (''Fichier non trouv'' @ [CHR 0xE9] @ '': data/production_data.csv'')),
      [MkDir ''drift_reports''], [])"
proof -
  have pf: "read_csv no_production_world ''data/production_data.csv'' =
      Inl (FileNotFoundError ''data/production_data.csv'')"
    by (simp add: no_production_world_def)
  have mk: "makedirs no_production_world ''drift_reports'' = None"
    by (simp add: no_production_world_def)
  have rf: "read_csv no_production_world ''data/bank_churn.csv'' = Inr churn_ref"
    by (simp add: no_production_world_def)
  from unresolved_locator_fails_check [OF disjI2, OF pf,
      of "''data/bank_churn.csv''" "Finite (5 / 100)" "''drift_reports''"] mk rf
  have "detect_drift no_production_world ''data/bank_churn.csv'' ''data/production_data.csv''
      (Finite (5 / 100)) ''drift_reports'' =
      (Inl (FileNotFoundError ''data/production_data.csv''), [MkDir ''drift_reports'']) \<and>
    check_drift no_production_world (Finite (5 / 100)) =
      (Inl (HTTPException 404
         (''Fichier non trouv'' @ [CHR 0xE9] @ '': data/production_data.csv'')),
       [MkDir ''drift_reports''], [])"
    by simp
  with pf mk rf show ?thesis by blast
qed

text \<open>
  Where the output directory cannot be created, \<open>os.makedirs\<close> raises before any file is
  read: the data files are not found either, and the check fails with the generic 500.
\<close>

theorem unresolved_locator_other_error:
  "read_csv readonly_world ''data/bank_churn.csv'' =
     Inl (FileNotFoundError ''data/bank_churn.csv'') \<and>
   detect_drift readonly_world ''data/bank_churn.csv'' ''data/production_data.csv''
     (Finite (5 / 100)) ''drift_reports'' = (Inl (PermissionError ''drift_reports''), []) \<and>
   check_drift readonly_world (Finite (5 / 100)) =
     (Inl (HTTPException 500 ''Drift check failed''), [],
      [DriftError (PermissionError ''drift_reports'')])"
  by (simp add: check_drift_def detect_drift_def readonly_world_def)

section \<open>The aggregate of log_drift_to_insights\<close>

lemma risk_level_bands:
  "(risk_level pct = ''LOW'' \<longleftrightarrow> pct < 20) \<and>
   (risk_level pct = ''MEDIUM'' \<longleftrightarrow> 20 \<le> pct \<and> pct < 50) \<and>
   (risk_level pct = ''HIGH'' \<longleftrightarrow> 50 \<le> pct)"
  by (auto simp: risk_level_def)

lemma risk_1999: "risk_level (fl (1999 / 100)) = ''LOW''" by code_simp
lemma risk_4999: "risk_level (fl (4999 / 100)) = ''MEDIUM''" by code_simp
lemma fl_20: "fl 20 = 20" by code_simp
lemma fl_50: "fl 50 = 50" by code_simp

text \<open>
  The percentage is the result of the double-precision operations, not of exact
  arithmetic: for 3999 flagged features of 20000 the exact percentage 19.995 would round
  to 20.00, and the doubles give 19.99.
\<close>

lemma percentage_in_doubles:
  "py_round (float_mul (fl (3999 / 20000)) 100) 2 = fl (1999 / 100)"
  by code_simp

text \<open>
  C2.  For every results dict, \<open>log_drift_to_insights\<close> computes the percentage
  \<open>round(drifted / total * 100, 2)\<close>, in Python's double arithmetic, and \<open>0\<close> when there
  is no feature; it logs \<open>LOW\<close> exactly when the percentage is below 20, \<open>MEDIUM\<close> exactly
  when it is at least 20 and below 50, \<open>HIGH\<close> exactly when it is at least 50.  The
  doubles 19.99, 20.0, 49.99 and 50.0 fall in \<open>LOW\<close>, \<open>MEDIUM\<close>, \<open>MEDIUM\<close> and \<open>HIGH\<close>.
\<close>

theorem percentage_and_risk_band:
  "\<exists>pct.
     drift_percentage R = Inr pct \<and>
     pct = (if length R = 0 then 0
            else py_round
                   (float_mul
                      (fl (of_nat (length (filter (\<lambda>(_, r). drift_detected r) R)) /
                           of_nat (length R)))
                      100)
                   2) \<and>
     log_drift_to_insights R = Inr (DriftDetection pct (risk_level pct) # feature_logs R) \<and>
     (risk_level pct = ''LOW'' \<longleftrightarrow> pct < 20) \<and>
     (risk_level pct = ''MEDIUM'' \<longleftrightarrow> 20 \<le> pct \<and> pct < 50) \<and>
     (risk_level pct = ''HIGH'' \<longleftrightarrow> 50 \<le> pct) \<and>
     risk_level (fl (1999 / 100)) = ''LOW'' \<and>
     risk_level (fl 20) = ''MEDIUM'' \<and>
     risk_level (fl (4999 / 100)) = ''MEDIUM'' \<and>
     risk_level (fl 50) = ''HIGH''"
proof -
  let ?pct = "if length R = 0 then 0
            else py_round
                   (float_mul
                      (fl (of_nat (length (filter (\<lambda>(_, r). drift_detected r) R)) /
                           of_nat (length R)))
                      100)
                   2"
  have p: "drift_percentage R = Inr ?pct"
    by (simp add: drift_percentage_def truediv_def Let_def)
  then have l: "log_drift_to_insights R =
      Inr (DriftDetection ?pct (risk_level ?pct) # feature_logs R)"
    by (simp add: log_drift_to_insights_def)
  have b20: "risk_level (fl 20) = ''MEDIUM''" and b50: "risk_level (fl 50) = ''HIGH''"
    by (simp_all add: fl_20 fl_50 risk_level_def)
  from p l risk_level_bands [of ?pct] risk_1999 risk_4999 b20 b50 show ?thesis
    by blast
qed

text \<open>
  C8.  With no feature in the results the percentage is \<open>0\<close> and the risk level \<open>LOW\<close>;
  nothing is raised, although dividing by the total would raise.
\<close>

theorem no_features_no_division:
  "drift_percentage [] = Inr 0 \<and>
   log_drift_to_insights [] = Inr [DriftDetection 0 ''LOW''] \<and>
   truediv 0 0 = Inl (ZeroDivisionError ''division by zero'')"
  by (simp add: drift_percentage_def log_drift_to_insights_def risk_level_def truediv_def)

section \<open>Identical samples\<close>

lemma fold_max_zeros: "fold max (map (\<lambda>_. 0::real) xs) 0 = 0"
  by (induction xs) simp_all

lemma ks_statistic_same: "ks_statistic xs xs = 0"
  by (simp add: ks_statistic_def fold_max_zeros)

lemma ks_2samp_spec_same:
  "xs \<noteq> [] \<Longrightarrow> ks_2samp_spec xs xs = Inr (Finite 0, Finite 1)"
  by (simp add: ks_2samp_spec_def ks_statistic_same kolmogorov_sf_def)

text \<open>The statistic on two samples that differ: the largest gap is one half.\<close>

lemma ks_statistic_example: "ks_statistic [600, 700 :: int] [650, 720] = 1 / 2"
  by (simp add: ks_statistic_def ecdf_def)

lemma blank_samples:
  "sample churn_blank ''CreditScore'' = []"
  "sample churn_blank ''Age'' = [30, 40, 50]"
  by (simp_all add: sample_def getitem_def churn_blank_def)

lemma blank_run:
  "detect_drift
     (demo_world churn_blank churn_blank (on_empty answer_nan ks_2samp_spec))
     ''data/bank_churn.csv'' ''data/production_data.csv'' t ''drift_reports'' =
   (Inr (blank_results t),
    [MkDir ''drift_reports'',
     WriteJson ''drift_reports/drift_20240101_120000.json'' (blank_results t)])"
  by (simp add: detect_drift_def demo_world_def files_def churn_blank_def on_empty_def
      answer_nan_def ks_2samp_spec_same columns_def getitem_def report_path_def
      blank_results_def)

text \<open>
  C6, as the code has it.  Let the library be the Kolmogorov-Smirnov test of the
  specification wherever both samples are non-empty, whatever it does with an empty
  one.  For every feature whose production sample equals its reference sample and is
  not empty, the comparison yields the statistic \<open>0\<close> and the p-value \<open>1\<close>; in the
  results of a check the feature carries these two values and is not flagged at any
  threshold below \<open>1\<close>.
\<close>

theorem identical_samples_no_drift:
  assumes ks: "ks_2samp w = on_empty d ks_2samp_spec"
    and run: "detect_drift w rf pf t od = (Inr R, eff)"
    and rd: "read_csv w rf = Inr ref" "read_csv w pf = Inr prd"
    and mem: "(c, r) \<in> set R"
    and same: "sample prd c = sample ref c"
    and nonempty: "sample ref c \<noteq> []"
  shows "ks_2samp w (sample ref c) (sample prd c) = Inr (Finite 0, Finite 1) \<and>
         statistic r = Finite 0 \<and> p_value r = Finite 1 \<and>
         (float_lt t (Finite 1) \<longrightarrow> \<not> drift_detected r)"
proof -
  from ks same nonempty
  have cmp: "ks_2samp w (sample ref c) (sample prd c) = Inr (Finite 0, Finite 1)"
    by (simp add: on_empty_def ks_2samp_spec_same)
  from run mem obtain ref' prd' rc pc stat p where
    rd': "read_csv w rf = Inr ref'" "read_csv w pf = Inr prd'" and
    g: "getitem ref' c = Inr rc" "getitem prd' c = Inr pc" and
    k: "ks_2samp w (dropna rc) (dropna pc) = Inr (stat, p)" and
    r: "r = \<lparr>p_value = p, statistic = stat, drift_detected = float_lt p t,
             type' = ''numerical''\<rparr>"
    by (rule detect_drift_entry)
  from rd rd' g have "sample ref c = dropna rc" "sample prd c = dropna pc"
    by (simp_all add: sample_def)
  with cmp k have "stat = Finite 0" "p = Finite 1" by simp_all
  with r have "statistic r = Finite 0" "p_value r = Finite 1"
    "drift_detected r = float_lt (Finite 1) t" by simp_all
  moreover have "float_lt t (Finite 1) \<longrightarrow> \<not> float_lt (Finite 1) t"
    by (cases t) auto
  ultimately show ?thesis using cmp by simp
qed

theorem identical_samples_no_drift_witness:
  "ks_2samp
     (demo_world churn_blank churn_blank (on_empty answer_nan ks_2samp_spec)) =
     on_empty answer_nan ks_2samp_spec \<and>
   detect_drift
     (demo_world churn_blank churn_blank (on_empty answer_nan ks_2samp_spec))
     ''data/bank_churn.csv'' ''data/production_data.csv'' (Finite (5 / 100)) ''drift_reports'' =
   (Inr (blank_results (Finite (5 / 100))),
    [MkDir ''drift_reports'',
     WriteJson ''drift_reports/drift_20240101_120000.json''
       (blank_results (Finite (5 / 100)))]) \<and>
   read_csv
     (demo_world churn_blank churn_blank (on_empty answer_nan ks_2samp_spec))
     ''data/bank_churn.csv'' = Inr churn_blank \<and>
   read_csv
     (demo_world churn_blank churn_blank (on_empty answer_nan ks_2samp_spec))
     ''data/production_data.csv'' = Inr churn_blank \<and>
   (''Age'',
    \<lparr>p_value = Finite 1, statistic = Finite 0, drift_detected = False,
     type' = ''numerical''\<rparr>) \<in> set (blank_results (Finite (5 / 100))) \<and>
   sample churn_blank ''Age'' = [30, 40, 50] \<and>
   float_lt (Finite (5 / 100)) (Finite 1) \<and>
   ks_2samp
     (demo_world churn_blank churn_blank (on_empty answer_nan ks_2samp_spec))
     (sample churn_blank ''Age'') (sample churn_blank ''Age'') =
     Inr (Finite 0, Finite 1) \<and>
   statistic
     \<lparr>p_value = Finite 1, statistic = Finite 0, drift_detected = False,
      type' = ''numerical''\<rparr> = Finite 0 \<and>
   p_value
     \<lparr>p_value = Finite 1, statistic = Finite 0, drift_detected = False,
      type' = ''numerical''\<rparr> = Finite 1 \<and>
   \<not> drift_detected
     \<lparr>p_value = Finite 1, statistic = Finite 0, drift_detected = False,
      type' = ''numerical''\<rparr>"
proof -
  let ?w = "demo_world churn_blank churn_blank
    (on_empty answer_nan ks_2samp_spec)"
  let ?r = "\<lparr>p_value = Finite 1, statistic = Finite 0, drift_detected = False,
     type' = ''numerical''\<rparr>"
  have ks: "ks_2samp ?w = on_empty answer_nan ks_2samp_spec"
    by (simp add: demo_world_def)
  have mem: "(''Age'', ?r) \<in> set (blank_results (Finite (5 / 100)))"
    by (simp add: blank_results_def)
  have ne: "sample churn_blank ''Age'' \<noteq> []"
    by (simp add: blank_samples)
  have lt: "float_lt (Finite (5 / 100)) (Finite 1)" by simp
  note inst = identical_samples_no_drift [OF ks blank_run demo_files mem refl ne]
  from inst lt have
    "ks_2samp ?w (sample churn_blank ''Age'') (sample churn_blank ''Age'') =
       Inr (Finite 0, Finite 1)"
    "statistic ?r = Finite 0" "p_value ?r = Finite 1" "\<not> drift_detected ?r"
    by blast+
  then show ?thesis
    by (intro conjI ks blank_run demo_files mem blank_samples(2) lt)
qed

text \<open>
  The two \<open>CreditScore\<close> samples are equal, both being empty.  With the test of the
  specification alone the comparison raises and the check returns nothing; where the
  library answers NaN for an empty sample the check returns, and the feature carries
  NaN as statistic and as p-value.
\<close>

theorem identical_empty_samples:
  "sample churn_blank ''CreditScore'' = ([] :: int list) \<and>
   ks_2samp_spec (sample churn_blank ''CreditScore'') (sample churn_blank ''CreditScore'') =
     Inl (ValueError ''DegenerateSample'') \<and>
   detect_drift (demo_world churn_blank churn_blank ks_2samp_spec)
     ''data/bank_churn.csv'' ''data/production_data.csv'' (Finite (5 / 100)) ''drift_reports'' =
     (Inl (ValueError ''DegenerateSample''), [MkDir ''drift_reports'']) \<and>
   detect_drift
     (demo_world churn_blank churn_blank (on_empty answer_nan ks_2samp_spec))
     ''data/bank_churn.csv'' ''data/production_data.csv'' (Finite (5 / 100)) ''drift_reports'' =
     (Inr [(''CreditScore'',
            \<lparr>p_value = NaN, statistic = NaN, drift_detected = False,
             type' = ''numerical''\<rparr>),
           (''Age'',
            \<lparr>p_value = Finite 1, statistic = Finite 0, drift_detected = False,
             type' = ''numerical''\<rparr>)],
      [MkDir ''drift_reports'',
       WriteJson ''drift_reports/drift_20240101_120000.json''
         [(''CreditScore'',
           \<lparr>p_value = NaN, statistic = NaN, drift_detected = False,
            type' = ''numerical''\<rparr>),
          (''Age'',
           \<lparr>p_value = Finite 1, statistic = Finite 0, drift_detected = False,
            type' = ''numerical''\<rparr>)]]) \<and>
   statistic
     \<lparr>p_value = NaN, statistic = NaN, drift_detected = False, type' = ''numerical''\<rparr> \<noteq>
     Finite 0"
proof -
  have abort: "detect_drift (demo_world churn_blank churn_blank ks_2samp_spec)
      ''data/bank_churn.csv'' ''data/production_data.csv'' (Finite (5 / 100))
      ''drift_reports'' = (Inl (ValueError ''DegenerateSample''), [MkDir ''drift_reports''])"
    by (simp add: detect_drift_def demo_world_def files_def churn_blank_def
        ks_2samp_spec_def columns_def getitem_def)
  have raise: "ks_2samp_spec (sample churn_blank ''CreditScore'')
      (sample churn_blank ''CreditScore'') = Inl (ValueError ''DegenerateSample'')"
    by (simp add: blank_samples ks_2samp_spec_def)
  have ret: "detect_drift
      (demo_world churn_blank churn_blank (on_empty answer_nan ks_2samp_spec))
      ''data/bank_churn.csv'' ''data/production_data.csv'' (Finite (5 / 100))
      ''drift_reports'' =
      (Inr [(''CreditScore'',
             \<lparr>p_value = NaN, statistic = NaN, drift_detected = False,
              type' = ''numerical''\<rparr>),
            (''Age'',
             \<lparr>p_value = Finite 1, statistic = Finite 0, drift_detected = False,
              type' = ''numerical''\<rparr>)],
       [MkDir ''drift_reports'',
        WriteJson ''drift_reports/drift_20240101_120000.json''
          [(''CreditScore'',
            \<lparr>p_value = NaN, statistic = NaN, drift_detected = False,
             type' = ''numerical''\<rparr>),
           (''Age'',
            \<lparr>p_value = Finite 1, statistic = Finite 0, drift_detected = False,
             type' = ''numerical''\<rparr>)]])"
    unfolding blank_run by (simp add: blank_results_def)
  have ne: "statistic
      \<lparr>p_value = NaN, statistic = NaN, drift_detected = False, type' = ''numerical''\<rparr> \<noteq>
      Finite 0"
    by simp
  show ?thesis
    by (intro conjI blank_samples(1) raise abort ret ne)
qed

end
